theory Spec2Isabelle
  imports Complex_Main
begin

section \<open>JavaScript numbers\<close>

text \<open>
  The component computes with JavaScript values of type \<open>number\<close>. A number is modelled
  as a finite value, one of the two infinities, or NaN. Finite values are taken as exact
  reals: the rounding and the overflow of IEEE doubles are not modelled, and the negative
  zero is identified with zero (so a division by zero takes its sign from the numerator,
  as it does for the divisor \<open>+0\<close>).
\<close>

datatype number = Fin real | PosInf | NegInf | NaN

fun js_neg :: "number \<Rightarrow> number" where
  "js_neg (Fin a) = Fin (- a)"
| "js_neg PosInf = NegInf"
| "js_neg NegInf = PosInf"
| "js_neg NaN = NaN"

fun js_add :: "number \<Rightarrow> number \<Rightarrow> number" where
  "js_add NaN _ = NaN"
| "js_add _ NaN = NaN"
| "js_add (Fin a) (Fin b) = Fin (a + b)"
| "js_add PosInf NegInf = NaN"
| "js_add NegInf PosInf = NaN"
| "js_add PosInf _ = PosInf"
| "js_add NegInf _ = NegInf"
| "js_add (Fin a) PosInf = PosInf"
| "js_add (Fin a) NegInf = NegInf"

definition js_sub :: "number \<Rightarrow> number \<Rightarrow> number" where
  "js_sub a b = js_add a (js_neg b)"

fun js_mul :: "number \<Rightarrow> number \<Rightarrow> number" where
  "js_mul NaN _ = NaN"
| "js_mul _ NaN = NaN"
| "js_mul (Fin a) (Fin b) = Fin (a * b)"
| "js_mul (Fin a) PosInf = (if a = 0 then NaN else if 0 < a then PosInf else NegInf)"
| "js_mul (Fin a) NegInf = (if a = 0 then NaN else if 0 < a then NegInf else PosInf)"
| "js_mul PosInf (Fin b) = (if b = 0 then NaN else if 0 < b then PosInf else NegInf)"
| "js_mul NegInf (Fin b) = (if b = 0 then NaN else if 0 < b then NegInf else PosInf)"
| "js_mul PosInf PosInf = PosInf"
| "js_mul PosInf NegInf = NegInf"
| "js_mul NegInf PosInf = NegInf"
| "js_mul NegInf NegInf = PosInf"

fun js_div :: "number \<Rightarrow> number \<Rightarrow> number" where
  "js_div NaN _ = NaN"
| "js_div _ NaN = NaN"
| "js_div (Fin a) (Fin b) =
     (if b = 0 then (if a = 0 then NaN else if 0 < a then PosInf else NegInf)
      else Fin (a / b))"
| "js_div (Fin a) PosInf = Fin 0"
| "js_div (Fin a) NegInf = Fin 0"
| "js_div PosInf (Fin b) = (if 0 \<le> b then PosInf else NegInf)"
| "js_div NegInf (Fin b) = (if 0 \<le> b then NegInf else PosInf)"
| "js_div PosInf _ = NaN"
| "js_div NegInf _ = NaN"


text \<open>Strict equality \<open>===\<close> on numbers: NaN equals nothing, itself included.\<close>

definition js_strict_eq :: "number \<Rightarrow> number \<Rightarrow> bool" where
  "js_strict_eq a b = (a \<noteq> NaN \<and> b \<noteq> NaN \<and> a = b)"


text \<open>
  A property that is absent reads as \<open>undefined\<close>, and \<open>undefined\<close> in arithmetic is
  NaN: this is what the cast \<open>styles.slide.width as number\<close> leaves at run time.
\<close>

fun as_number :: "number option \<Rightarrow> number" where
  "as_number (Some n) = n"
| "as_number None = NaN"

section \<open>Props\<close>

datatype IndicatorShape = Circle | Square | Rectangle | Line

datatype WidthType = Window | Px number

text \<open>
  An entry of \<open>images\<close> at run time: a string (a path or URL), a number (what
  \<open>require\<close> returns) or an image source object, kept as its list of properties.
\<close>

datatype js_value = JString string | JNumber number | JObject "(string \<times> js_value) list"

text \<open>
  The props after the merge with \<open>defaultProps\<close>. The container \<open>style\<close> and the
  callback \<open>onPressSlide\<close> are passed on to the toolkit untouched and are left out.
\<close>

record FlatListSliderProps =
  width :: WidthType
  preAppliedSpacing :: number
  images :: "js_value list"
  aspectRatio :: number
  resizeMode :: string
  duration :: number
  animated :: bool
  showIndicator :: bool
  indicatorSize :: number
  indicatorColor :: string
  indicatorActiveColor :: string
  indicatorShape :: IndicatorShape
  pressable :: bool

definition defaultProps :: FlatListSliderProps where
  "defaultProps =
     \<lparr> width = Window,
       preAppliedSpacing = Fin 0,
       images = [],
       aspectRatio = Fin (178 / 100),
       resizeMode = ''contain'',
       duration = Fin 3000,
       animated = True,
       showIndicator = True,
       indicatorSize = Fin 15,
       indicatorColor = ''#111'',
       indicatorActiveColor = ''#fff'',
       indicatorShape = Circle,
       pressable = False \<rparr>"

section \<open>Derived geometry and styles\<close>

text \<open>The memoised \<open>width\<close> of the component body; \<open>windowWidth\<close> comes from the host.\<close>

definition width_memo :: "FlatListSliderProps \<Rightarrow> number \<Rightarrow> number" where
  "width_memo p windowWidth =
     (case width p of
        Window \<Rightarrow> js_sub windowWidth (preAppliedSpacing p)
      | Px w \<Rightarrow> w)"

text \<open>A style object: every key may be absent.\<close>

record Style =
  s_width :: "number option"
  s_height :: "number option"
  s_resizeMode :: "string option"
  s_borderRadius :: "number option"
  s_marginHorizontal :: "number option"
  s_backgroundColor :: "string option"

definition no_style :: Style where
  "no_style =
     \<lparr> s_width = None, s_height = None, s_resizeMode = None, s_borderRadius = None,
       s_marginHorizontal = None, s_backgroundColor = None \<rparr>"

text \<open>
  The \<open>styles\<close> memo. Its \<open>indicator\<close> entry is a constant layout of the row of dots and
  is left out.
\<close>

record SliderStyles =
  slide :: Style
  badge :: Style
  active :: Style

definition styles :: "FlatListSliderProps \<Rightarrow> number \<Rightarrow> SliderStyles" where
  "styles p windowWidth =
     \<lparr> slide = no_style
         \<lparr> s_width := Some (width_memo p windowWidth),
           s_height := Some (js_div (width_memo p windowWidth) (aspectRatio p)),
           s_resizeMode := Some (resizeMode p) \<rparr>,
       badge = no_style
         \<lparr> s_marginHorizontal := Some (Fin 3),
           s_backgroundColor := Some (indicatorColor p),
           s_height := Some (indicatorSize p) \<rparr>,
       active = no_style \<lparr> s_backgroundColor := Some (indicatorActiveColor p) \<rparr> \<rparr>"







text \<open>The \<open>images\<close> memo: the sources handed to the list.\<close>

definition images_memo :: "FlatListSliderProps \<Rightarrow> js_value list" where
  "images_memo p =
     map (\<lambda>image. case image of JString s \<Rightarrow> JObject [(''uri'', JString s)] | _ \<Rightarrow> image)
       (images p)"

section \<open>The host's timers\<close>

text \<open>
  The pending timeouts of the host, each with its identifier and its delay.
  \<open>setTimeout\<close> appends one under an unused identifier and returns the identifier;
  \<open>clearTimeout\<close> removes the timeout of that identifier, if it is still pending.
\<close>

type_synonym timers = "(nat \<times> number) list"

definition fresh_id :: "timers \<Rightarrow> nat" where
  "fresh_id ts = Suc (foldl max 0 (map fst ts))"

definition setTimeout :: "number \<Rightarrow> timers \<Rightarrow> nat \<times> timers" where
  "setTimeout delay ts = (fresh_id ts, ts @ [(fresh_id ts, delay)])"

definition clearTimeout :: "nat \<Rightarrow> timers \<Rightarrow> timers" where
  "clearTimeout tid ts = filter (\<lambda>t. fst t \<noteq> tid) ts"

section \<open>Auto-advance\<close>

text \<open>A call of \<open>scrollToOffset\<close> on the list.\<close>

datatype ScrollCommand = ScrollToOffset (cmd_animated: bool) (cmd_offset: number)

text \<open>
  The body of the effect: it arms a timeout of \<open>p.duration\<close> and returns its identifier,
  which the cleanup clears.
\<close>

definition auto_advance_effect :: "FlatListSliderProps \<Rightarrow> timers \<Rightarrow> nat \<times> timers" where
  "auto_advance_effect p ts = setTimeout (duration p) ts"

definition auto_advance_cleanup :: "nat \<Rightarrow> timers \<Rightarrow> timers" where
  "auto_advance_cleanup tid ts = clearTimeout tid ts"

text \<open>
  The callback of the timeout. \<open>sliderRef_current\<close> tells whether the ref holds the
  list when the timeout fires; the result is the command sent to the list, if any.
\<close>

definition timer_callback ::
    "bool \<Rightarrow> FlatListSliderProps \<Rightarrow> number \<Rightarrow> number \<Rightarrow> ScrollCommand option" where
  "timer_callback sliderRef_current p windowWidth current =
     (if \<not> sliderRef_current then None
      else if js_strict_eq (js_sub (Fin (real (length (images_memo p)))) (Fin 1)) current
      then Some (ScrollToOffset True (Fin 0))
      else Some (ScrollToOffset True
             (js_mul (as_number (s_width (slide (styles p windowWidth))))
                (js_add current (Fin 1)))))"

section \<open>Scroll notifications\<close>



section \<open>Pagination dots\<close>




section \<open>The component as a state machine\<close>





section \<open>Auxiliary facts\<close>


lemma length_images_memo: "length (images_memo p) = length (images p)"
  by (simp add: images_memo_def)

lemma strict_eq_Fin: "js_strict_eq c (Fin a) = (c = Fin a)" "js_strict_eq (Fin a) c = (c = Fin a)"
  by (auto simp: js_strict_eq_def)



lemma fresh_id_unused: "fresh_id ts \<notin> fst ` set ts"
proof -
  have "a \<le> foldl max a (map fst ts) \<and> (\<forall>t \<in> set ts. fst t \<le> foldl max a (map fst ts))"
    for a :: nat
  proof (induction ts arbitrary: a)
    case Nil
    show ?case by simp
  next
    case (Cons t ts)
    from Cons.IH [of "max a (fst t)"] show ?case by auto
  qed
  then show ?thesis
    unfolding fresh_id_def by (metis Suc_n_not_le_n image_iff)
qed





section \<open>The animated flag of the auto-advance\<close>

text \<open>
  C1. The claim is that the command of the timeout carries the \<open>animated\<close> prop. The
  callback writes \<open>animated: true\<close> in both of its calls: with \<open>animated\<close> set to false,
  two images of width 100 and \<open>current = 0\<close>, the command sent is animated.
\<close>

theorem auto_advance_animated_is_fixed:
  "timer_callback True
     (defaultProps\<lparr>animated := False, width := Px (Fin 100),
        images := [JString ''a'', JString ''b'']\<rparr>) (Fin 400) (Fin 0)
   = Some (ScrollToOffset True (Fin 100))"
  by (simp add: timer_callback_def defaultProps_def images_memo_def js_strict_eq_def js_sub_def
      styles_def width_memo_def no_style_def)

section \<open>The timeout with at most one slide\<close>

text \<open>
  C2, as stated, fails: with a single image the effect arms a timeout of 3000 ms, and when
  it fires at \<open>current = 0\<close> the callback sends a command to the list.
\<close>

theorem single_slide_timer_armed:
  "snd (auto_advance_effect (defaultProps\<lparr>images := [JString ''a'']\<rparr>) []) = [(1, Fin 3000)]
   \<and> timer_callback True (defaultProps\<lparr>images := [JString ''a'']\<rparr>) (Fin 400) (Fin 0)
       = Some (ScrollToOffset True (Fin 0))"
  by (simp add: auto_advance_effect_def setTimeout_def fresh_id_def timer_callback_def
      defaultProps_def images_memo_def js_strict_eq_def js_sub_def)

text \<open>
  C2, amended: for every configuration, whatever the number of slides, the effect arms one
  timeout of \<open>p.duration\<close> under an unused identifier; with exactly one slide and
  \<open>current = 0\<close> the command it sends on firing has offset 0, the position of that slide.
\<close>

theorem auto_advance_timer_always_armed:
  "snd (auto_advance_effect p ts) = ts @ [(fst (auto_advance_effect p ts), duration p)]
   \<and> fst (auto_advance_effect p ts) \<notin> fst ` set ts
   \<and> (length (images p) = 1 \<longrightarrow>
        timer_callback True p windowWidth (Fin 0) = Some (ScrollToOffset True (Fin 0)))"
  using fresh_id_unused [of ts]
  by (simp add: auto_advance_effect_def setTimeout_def timer_callback_def
      length_images_memo js_sub_def strict_eq_Fin)

text \<open>The amended C2 at a single local image and no pending timeout.\<close>

theorem auto_advance_timer_always_armed_witness:
  "length (images (defaultProps\<lparr>images := [JNumber (Fin 7)]\<rparr>)) = 1
   \<and> snd (auto_advance_effect (defaultProps\<lparr>images := [JNumber (Fin 7)]\<rparr>) []) = [(1, Fin 3000)]
   \<and> timer_callback True (defaultProps\<lparr>images := [JNumber (Fin 7)]\<rparr>) (Fin 400) (Fin 0)
       = Some (ScrollToOffset True (Fin 0))"
  using auto_advance_timer_always_armed [of "defaultProps\<lparr>images := [JNumber (Fin 7)]\<rparr>" "[]" "Fin 400"]
  by (simp add: defaultProps_def auto_advance_effect_def setTimeout_def fresh_id_def)

section \<open>Scroll notifications of width zero or less\<close>




section \<open>The target of an auto-advance step\<close>



section \<open>The index of a scroll notification\<close>



section \<open>The range of the index\<close>




section \<open>Presses on the pagination dots\<close>




section \<open>The geometry of a slide\<close>



section \<open>The geometry of a pagination dot\<close>



section \<open>The image sources\<close>

text \<open>
  C10. The sources handed to the list are as many as the images and in their order: a
  string \<open>s\<close> becomes the object with the single property \<open>uri\<close> of value \<open>s\<close>, and an
  entry that is not a string is passed as it is.
\<close>

theorem images_memo_normalises:
  "length (images_memo p) = length (images p)
   \<and> (\<forall>i < length (images p).
        (\<forall>s. images p ! i = JString s \<longrightarrow> images_memo p ! i = JObject [(''uri'', JString s)])
        \<and> ((\<forall>s. images p ! i \<noteq> JString s) \<longrightarrow> images_memo p ! i = images p ! i))"
  by (auto simp: images_memo_def split: js_value.splits)

text \<open>C10 at a list of a local resource, a URL and a source object.\<close>

theorem images_memo_normalises_witness:
  "images_memo (defaultProps\<lparr>images :=
      [JNumber (Fin 7), JString ''https://picsum.photos/seed/picsum2/200/300'',
       JObject [(''uri'', JString ''a.png''), (''width'', JNumber (Fin 200))]]\<rparr>)
   = [JNumber (Fin 7), JObject [(''uri'', JString ''https://picsum.photos/seed/picsum2/200/300'')],
      JObject [(''uri'', JString ''a.png''), (''width'', JNumber (Fin 200))]]"
  using images_memo_normalises [of "defaultProps\<lparr>images :=
      [JNumber (Fin 7), JString ''https://picsum.photos/seed/picsum2/200/300'',
       JObject [(''uri'', JString ''a.png''), (''width'', JNumber (Fin 200))]]\<rparr>"]
  by (simp add: defaultProps_def images_memo_def)

end
